theory Spec2Isabelle
  imports Complex_Main
begin

section \<open>The 2048 engine: data model\<close>

text \<open>
  The engine is the JavaScript class \<open>Game\<close>. Its fields become a record, its methods
  functions that take the engine and return the updated engine next to the method's
  return value. Tile values, scores and coordinates are JavaScript numbers that only ever
  hold integers; they are \<open>int\<close> and \<open>nat\<close> here. A JavaScript number is an IEEE double:
  the sum of two of them is rounded to 53 significant bits (\<open>jsAdd\<close> below), which is
  how the score gain and the score are added up. Doubling a tile is exact.

  The grid is an array of rows, and every method reads it by index up to \<open>this.size\<close>. In
  JavaScript a read past the end of a row gives \<open>undefined\<close> and a read in a row that does
  not exist raises a \<open>TypeError\<close>; the list lookup of HOL gives an unspecified number
  there. The definitions below are those of the code on engines whose grid is a
  \<open>size \<times> size\<close> matrix (\<open>wellFormed\<close> below), where every read is in range. That is what
  \<open>init\<close> builds and what every move keeps (\<open>init_wellFormed\<close>, \<open>move_wellFormed\<close>); the
  engines on which the examples call \<open>move\<close> are of this kind.

  The two values \<open>Math.random()\<close> returns in \<open>addRandomTile\<close> are an argument of the model
  (\<open>rnd\<close>): the first picks the cell, the second the value. Each lies in \<open>[0, 1)\<close>, so
  the index computed from the first is in range. The model floors the exact product of
  the draw and the number of empty cells, where the code floors that product rounded to a
  double; no statement below depends on which empty cell is picked.
\<close>

datatype game_state = Playing | Won | Lost

type_synonym board = "int list list"

record snapshot =
  h_grid :: board
  h_score :: int
  h_gameState :: game_state
  h_wonBefore :: bool

record game =
  sizeN :: nat
  grid :: board
  score :: int
  bestScore :: int
  history :: "snapshot list"
  maxHistory :: nat
  gameState :: game_state
  wonBefore :: bool
  moveId :: nat

record rnd =
  pick :: rat
  roll :: rat

record tile =
  t_r :: nat
  t_c :: nat
  t_value :: int

text \<open>\<open>constructor(size = 4)\<close>: an engine with no grid yet.\<close>

definition Game :: "nat \<Rightarrow> game" where
  "Game n = \<lparr>sizeN = n, grid = [], score = 0, bestScore = 0, history = [],
     maxHistory = 20, gameState = Playing, wonBefore = False, moveId = 0\<rparr>"

text \<open>An \<open>n \<times> n\<close> board, and an engine whose grid is one of its own size.\<close>

definition square :: "nat \<Rightarrow> board \<Rightarrow> bool" where
  "square n g = (length g = n \<and> list_all (\<lambda>rw. length rw = n) g)"

definition wellFormed :: "game \<Rightarrow> bool" where
  "wellFormed s = square (sizeN s) (grid s)"

subsection \<open>Adding numbers\<close>

text \<open>The number of bits of a positive integer: \<open>2 ^ (n - 1) \<le> m < 2 ^ n\<close>.\<close>

function bitLength :: "int \<Rightarrow> nat" where
  "bitLength m = (if m \<le> 0 then 0 else Suc (bitLength (m div 2)))"
  by pat_completeness auto
termination
  by (relation "measure nat") auto

text \<open>
  The double nearest to an integer: the integer itself below \<open>2 ^ 53\<close> in magnitude,
  otherwise its 53 leading bits, rounded to nearest with ties to the even one, times the
  power of two that was cut off. (From \<open>2 ^ 1024\<close> on a double is \<open>Infinity\<close>, which the
  model does not have.) \<open>x + y\<close> on two integer-valued doubles is the double nearest to
  the exact sum.
\<close>

definition toDouble :: "int \<Rightarrow> int" where
  "toDouble z =
     (let m = \<bar>z\<bar>
      in if m < 9007199254740992 then z
         else let e = bitLength m - 53;
                  q = m div 2 ^ e;
                  r = m mod 2 ^ e;
                  q' = (if 2 ^ e < 2 * r \<or> (2 * r = 2 ^ e \<and> odd q) then q + 1 else q)
              in sgn z * (q' * 2 ^ e))"

definition jsAdd :: "int \<Rightarrow> int \<Rightarrow> int" where
  "jsAdd x y = toDouble (x + y)"

subsection \<open>History\<close>

definition cloneGrid :: "board \<Rightarrow> board" where
  "cloneGrid g = map (\<lambda>rw. map (\<lambda>v. v) rw) g"

text \<open>The object \<open>pushHistory\<close> pushes: the engine's grid, score, state and flag.\<close>

definition snap :: "game \<Rightarrow> snapshot" where
  "snap s = \<lparr>h_grid = cloneGrid (grid s), h_score = score s,
     h_gameState = gameState s, h_wonBefore = wonBefore s\<rparr>"

text \<open>\<open>push\<close> appends at the end of the array, \<open>shift\<close> removes its first element.\<close>

definition pushHistory :: "game \<Rightarrow> game" where
  "pushHistory s =
     (let h = history s @ [snap s]
      in s\<lparr>history := (if length h > maxHistory s then tl h else h)\<rparr>)"

text \<open>\<open>pop\<close> removes the last element of the array and returns it.\<close>

definition undo :: "game \<Rightarrow> bool \<times> game" where
  "undo s =
     (if length (history s) = 0 then (False, s)
      else let prev = last (history s)
           in (True, s\<lparr>history := butlast (history s), grid := h_grid prev,
                 score := h_score prev, gameState := h_gameState prev,
                 wonBefore := h_wonBefore prev\<rparr>))"

definition continueGame :: "game \<Rightarrow> game" where
  "continueGame s =
     (if gameState s = Won then s\<lparr>wonBefore := True, gameState := Playing\<rparr> else s)"

subsection \<open>Spawning a tile\<close>

text \<open>
  The empty cells in the order the two loops push them: row by row, left to right.
\<close>

definition emptyCells :: "game \<Rightarrow> (nat \<times> nat) list" where
  "emptyCells s =
     concat (map (\<lambda>r. concat (map (\<lambda>c. if grid s ! r ! c = 0 then [(r, c)] else [])
                                   [0..<sizeN s]))
                 [0..<sizeN s])"

definition addRandomTile :: "game \<Rightarrow> rnd \<Rightarrow> tile option \<times> game" where
  "addRandomTile s rn =
     (let empty = emptyCells s
      in if length empty = 0 then (None, s)
         else let cell = empty ! nat \<lfloor>pick rn * of_nat (length empty)\<rfloor>;
                  val = (if roll rn < 9 / 10 then 2 else 4)
              in (Some \<lparr>t_r = fst cell, t_c = snd cell, t_value = val\<rparr>,
                  s\<lparr>grid := (grid s)[fst cell := (grid s ! fst cell)[snd cell := val]]\<rparr>))"

definition init :: "game \<Rightarrow> rnd \<Rightarrow> rnd \<Rightarrow> game" where
  "init s rn1 rn2 =
     (let s0 = s\<lparr>grid := replicate (sizeN s) (replicate (sizeN s) 0), score := 0,
                 history := [], gameState := Playing, wonBefore := False, moveId := 0\<rparr>;
          s1 = snd (addRandomTile s0 rn1)
      in snd (addRandomTile s1 rn2))"

subsection \<open>Sliding one row to the left\<close>

record slide =
  row :: "int list"
  merged :: "int list"
  scoreGain :: int
  mergePositions :: "nat list"

text \<open>
  The \<open>for\<close> loop of \<open>slideRow\<close>, on what is left of \<open>filtered\<close> from index \<open>i\<close> on: two equal
  values in front are merged and both consumed (\<open>i++\<close> twice), otherwise the front value
  is copied.
\<close>

fun slideLoop :: "int list \<Rightarrow> slide \<Rightarrow> slide" where
  "slideLoop (a # b # rest) acc =
     (if a = b
      then let mergedVal = a * 2
           in slideLoop rest
                \<lparr>row = row acc @ [mergedVal], merged = merged acc @ [mergedVal],
                 scoreGain = jsAdd (scoreGain acc) mergedVal,
                 mergePositions = mergePositions acc @ [length (row acc @ [mergedVal]) - 1]\<rparr>
      else slideLoop (b # rest) (acc\<lparr>row := row acc @ [a]\<rparr>))"
| "slideLoop [a] acc = acc\<lparr>row := row acc @ [a]\<rparr>"
| "slideLoop [] acc = acc"

definition slideRow :: "int list \<Rightarrow> slide" where
  "slideRow rw =
     (let filtered = filter (\<lambda>v. v \<noteq> 0) rw;
          res = slideLoop filtered \<lparr>row = [], merged = [], scoreGain = 0, mergePositions = []\<rparr>
      in res\<lparr>row := row res @ replicate (length rw - length (row res)) 0\<rparr>)"

subsection \<open>Rotating the grid\<close>

text \<open>
  \<open>rotateGrid\<close> fills an \<open>n \<times> n\<close> array of zeros: for every \<open>r\<close> and \<open>c\<close> below \<open>n\<close>,
  \<open>rotated[c][n - 1 - r] = grid[r][c]\<close>.
\<close>

definition rotateGrid :: "board \<Rightarrow> board" where
  "rotateGrid g =
     (let n = length g
      in fold (\<lambda>r rotated.
                 fold (\<lambda>c rotated. rotated[c := (rotated ! c)[n - 1 - r := g ! r ! c]])
                      [0..<n] rotated)
              [0..<n] (replicate n (replicate n 0)))"

definition rotateGridCCW :: "board \<Rightarrow> board" where
  "rotateGridCCW g =
     (let n = length g
      in fold (\<lambda>r rotated.
                 fold (\<lambda>c rotated. rotated[n - 1 - c := (rotated ! (n - 1 - c))[r := g ! r ! c]])
                      [0..<n] rotated)
              [0..<n] (replicate n (replicate n 0)))"

subsection \<open>One move\<close>

text \<open>
  The table \<open>rotations\<close> of \<open>move\<close>. A direction that is not one of its keys reads as
  \<open>undefined\<close> (\<open>None\<close>). A loop \<open>for (i = 0; i < k; i++)\<close> whose bound is \<open>undefined\<close> or
  \<open>NaN\<close> does not run, since \<open>0 < undefined\<close> and \<open>0 < NaN\<close> are false; and
  \<open>(4 - undefined) % 4\<close> is \<open>NaN\<close>.
\<close>

definition rotations :: "string \<Rightarrow> nat option" where
  "rotations = [''left'' \<mapsto> 0, ''up'' \<mapsto> 3, ''right'' \<mapsto> 2, ''down'' \<mapsto> 1]"

definition loopCount :: "nat option \<Rightarrow> nat" where
  "loopCount k = (case k of None \<Rightarrow> 0 | Some n \<Rightarrow> n)"

definition unrotOf :: "nat option \<Rightarrow> nat option" where
  "unrotOf rot = (case rot of None \<Rightarrow> None | Some k \<Rightarrow> Some ((4 - k) mod 4))"

record tileMovement =
  m_fromR :: nat
  m_fromC :: nat
  m_toR :: nat
  m_toC :: nat
  m_value :: int
  m_merged :: bool
  m_mergedValue :: "int option"

record movement =
  mv_from :: "int \<times> int"
  mv_to :: "int \<times> int"
  mv_value :: int
  mv_merged :: bool
  mv_mergedValue :: "int option"

record moveResult =
  res_moved :: bool
  movements :: "movement list"
  mergedTiles :: "int list"
  newTile :: "tile option"
  res_scoreGain :: int
  res_gameState :: game_state

text \<open>
  The \<open>while\<close> loop that records, for row \<open>r\<close>, where each tile of \<open>srcPositions\<close> went.
\<close>

function trackLoop ::
  "nat \<Rightarrow> nat \<Rightarrow> int list \<Rightarrow> nat list \<Rightarrow> (nat \<times> int) list \<Rightarrow> nat \<Rightarrow> nat
   \<Rightarrow> tileMovement list \<Rightarrow> tileMovement list" where
  "trackLoop n r rw mp srcPositions srcIdx destIdx tm =
     (if srcIdx < length srcPositions \<and> destIdx < n
      then if rw ! destIdx = 0
           then trackLoop n r rw mp srcPositions srcIdx (destIdx + 1) tm
           else if destIdx \<in> set mp \<and> srcIdx + 1 < length srcPositions
           then trackLoop n r rw mp srcPositions (srcIdx + 2) (destIdx + 1)
                  (tm @ [\<lparr>m_fromR = r, m_fromC = fst (srcPositions ! srcIdx),
                           m_toR = r, m_toC = destIdx,
                           m_value = snd (srcPositions ! srcIdx), m_merged = True,
                           m_mergedValue = Some (rw ! destIdx)\<rparr>,
                         \<lparr>m_fromR = r, m_fromC = fst (srcPositions ! (srcIdx + 1)),
                           m_toR = r, m_toC = destIdx,
                           m_value = snd (srcPositions ! (srcIdx + 1)), m_merged = True,
                           m_mergedValue = Some (rw ! destIdx)\<rparr>])
           else trackLoop n r rw mp srcPositions (srcIdx + 1) (destIdx + 1)
                  (tm @ [\<lparr>m_fromR = r, m_fromC = fst (srcPositions ! srcIdx),
                           m_toR = r, m_toC = destIdx,
                           m_value = snd (srcPositions ! srcIdx), m_merged = False,
                           m_mergedValue = None\<rparr>])
      else tm)"
  by pat_completeness auto
termination
  by (relation "measure (\<lambda>(n, r, rw, mp, srcPositions, srcIdx, destIdx, tm). n - destIdx)") auto

record rows =
  workGrid :: board
  moved :: bool
  totalScoreGain :: int
  allMerged :: "int list"
  tileMovements :: "tileMovement list"

text \<open>The body of the loop over the rows, for row \<open>r\<close> of an engine of size \<open>n\<close>.\<close>

definition rowStep :: "nat \<Rightarrow> nat \<Rightarrow> rows \<Rightarrow> rows" where
  "rowStep n r a =
     (let originalRow = workGrid a ! r;
          sl = slideRow (workGrid a ! r);
          mvd = (if list_ex (\<lambda>i. row sl ! i \<noteq> workGrid a ! r ! i) [0..<length (row sl)]
                 then True else moved a);
          srcPositions =
            concat (map (\<lambda>c. if originalRow ! c \<noteq> 0 then [(c, originalRow ! c)] else [])
                        [0..<n])
      in \<lparr>workGrid = (workGrid a)[r := row sl], moved = mvd,
          totalScoreGain = jsAdd (totalScoreGain a) (scoreGain sl),
          allMerged = allMerged a @ merged sl,
          tileMovements =
            trackLoop n r (row sl) (mergePositions sl) srcPositions 0 0 (tileMovements a)\<rparr>)"

text \<open>
  The grid is rotated so that the move slides to the left, then every row is slid.
\<close>

definition slideStep :: "game \<Rightarrow> string \<Rightarrow> rows" where
  "slideStep s direction =
     (let rot = rotations direction;
          w = (rotateGrid ^^ loopCount rot) (cloneGrid (grid s))
      in fold (rowStep (sizeN s)) [0..<sizeN s]
           \<lparr>workGrid = w, moved = False, totalScoreGain = 0, allMerged = [],
            tileMovements = []\<rparr>)"

definition unrotateCoord :: "nat \<Rightarrow> int \<Rightarrow> int \<Rightarrow> nat \<Rightarrow> int \<times> int" where
  "unrotateCoord n r c k = ((\<lambda>(cr, cc). (cc, int n - 1 - cr)) ^^ k) (r, c)"

definition unrotateMovement :: "nat \<Rightarrow> nat \<Rightarrow> tileMovement \<Rightarrow> movement" where
  "unrotateMovement n unrot m =
     \<lparr>mv_from = unrotateCoord n (int (m_fromR m)) (int (m_fromC m)) unrot,
      mv_to = unrotateCoord n (int (m_toR m)) (int (m_toC m)) unrot,
      mv_value = m_value m, mv_merged = m_merged m, mv_mergedValue = m_mergedValue m\<rparr>"

text \<open>
  The engine once a slide that moved something is committed and before the new tile is
  spawned: the grid rotated back, the score, the move counter and the best score.
\<close>

definition commit :: "game \<Rightarrow> string \<Rightarrow> rows \<Rightarrow> game" where
  "commit s direction a =
     (let unrot = unrotOf (rotations direction);
          s2 = s\<lparr>grid := (rotateGrid ^^ loopCount unrot) (workGrid a),
                 score := jsAdd (score s) (totalScoreGain a), moveId := moveId s + 1\<rparr>
      in if score s2 > bestScore s2 then s2\<lparr>bestScore := score s2\<rparr> else s2)"

definition canMove :: "game \<Rightarrow> bool" where
  "canMove s =
     (if list_ex (\<lambda>r. list_ex (\<lambda>c. grid s ! r ! c = 0) [0..<sizeN s]) [0..<sizeN s]
      then True
      else if list_ex (\<lambda>r. list_ex (\<lambda>c.
                  (c + 1 < sizeN s \<and> grid s ! r ! (c + 1) = grid s ! r ! c) \<or>
                  (r + 1 < sizeN s \<and> grid s ! (r + 1) ! c = grid s ! r ! c))
                [0..<sizeN s]) [0..<sizeN s]
      then True
      else False)"

definition move :: "game \<Rightarrow> string \<Rightarrow> rnd \<Rightarrow> moveResult option \<times> game" where
  "move s direction rn =
     (if gameState s = Lost then (None, s)
      else if gameState s = Won \<and> \<not> wonBefore s then (None, s)
      else
        let s1 = pushHistory s;
            a = slideStep s1 direction
        in if \<not> moved a then (None, s1\<lparr>history := butlast (history s1)\<rparr>)
           else
             let unrot = unrotOf (rotations direction);
                 mvs = map (unrotateMovement (sizeN s1) (loopCount unrot)) (tileMovements a);
                 s3 = commit s1 direction a;
                 sp = addRandomTile s3 rn;
                 s4 = snd sp;
                 hasWon = (2048 \<in> set (allMerged a) \<or> list_ex (\<lambda>rw. 2048 \<in> set rw) (grid s4));
                 s5 = (if hasWon \<and> \<not> wonBefore s4 then s4\<lparr>gameState := Won\<rparr> else s4);
                 s6 = (if \<not> canMove s5 then s5\<lparr>gameState := Lost\<rparr> else s5)
             in (Some \<lparr>res_moved = True, movements = mvs, mergedTiles = allMerged a,
                        newTile = fst sp, res_scoreGain = totalScoreGain a,
                        res_gameState = gameState s6\<rparr>,
                 s6))"

subsection \<open>Persistence\<close>

text \<open>
  The object \<open>deserialize\<close> reads. A field that is missing is \<open>None\<close>; so is \<open>data\<close> itself
  when it is \<open>null\<close> or \<open>undefined\<close>. In \<open>x || d\<close> a value that is present and falsy
  (\<open>0\<close>, \<open>false\<close>) is replaced by \<open>d\<close>, which is that same value for every field here.
\<close>

record serialized =
  d_grid :: "board option"
  d_score :: "int option"
  d_bestScore :: "int option"
  d_history :: "snapshot list option"
  d_gameState :: "game_state option"
  d_wonBefore :: "bool option"
  d_moveId :: "nat option"

definition orElse :: "'a option \<Rightarrow> 'a \<Rightarrow> 'a" where
  "orElse x d = (case x of None \<Rightarrow> d | Some v \<Rightarrow> v)"

definition serialize :: "game \<Rightarrow> serialized" where
  "serialize s =
     \<lparr>d_grid = Some (cloneGrid (grid s)), d_score = Some (score s),
      d_bestScore = Some (bestScore s),
      d_history = Some (map (\<lambda>h. \<lparr>h_grid = cloneGrid (h_grid h), h_score = h_score h,
                                   h_gameState = h_gameState h, h_wonBefore = h_wonBefore h\<rparr>)
                            (history s)),
      d_gameState = Some (gameState s), d_wonBefore = Some (wonBefore s),
      d_moveId = Some (moveId s)\<rparr>"

definition deserialize :: "game \<Rightarrow> serialized option \<Rightarrow> bool \<times> game" where
  "deserialize s data =
     (case data of
        None \<Rightarrow> (False, s)
      | Some d \<Rightarrow>
          (case d_grid d of
             None \<Rightarrow> (False, s)
           | Some g \<Rightarrow>
               (True, s\<lparr>grid := g, score := orElse (d_score d) 0,
                        bestScore := orElse (d_bestScore d) 0,
                        history := orElse (d_history d) [],
                        gameState := orElse (d_gameState d) Playing,
                        wonBefore := orElse (d_wonBefore d) False,
                        moveId := orElse (d_moveId d) 0\<rparr>)))"

section \<open>Notions used in the statements\<close>

text \<open>The two guards at the head of \<open>move\<close>: the call is turned down at once.\<close>

definition rejected :: "game \<Rightarrow> bool" where
  "rejected s = (gameState s = Lost \<or> (gameState s = Won \<and> \<not> wonBefore s))"

text \<open>The total of the tile values on a board.\<close>

definition tileSum :: "board \<Rightarrow> int" where
  "tileSum g = sum_list (map sum_list g)"



text \<open>
  The test \<open>hasWon\<close> of \<open>move\<close>, on the result and the engine it returns: a merge made
  exactly 2048, or a cell of the grid holds exactly 2048.
\<close>

definition has2048 :: "moveResult \<Rightarrow> game \<Rightarrow> bool" where
  "has2048 res s' = (2048 \<in> set (mergedTiles res) \<or> (\<exists>rw \<in> set (grid s'). 2048 \<in> set rw))"

text \<open>The lose condition in the words of the specification.\<close>

definition noEmptyCell :: "game \<Rightarrow> bool" where
  "noEmptyCell s = (\<forall>r < sizeN s. \<forall>c < sizeN s. grid s ! r ! c \<noteq> 0)"

definition noEqualNeighbours :: "game \<Rightarrow> bool" where
  "noEqualNeighbours s =
     (\<forall>r < sizeN s. \<forall>c < sizeN s.
        (c + 1 < sizeN s \<longrightarrow> grid s ! r ! (c + 1) \<noteq> grid s ! r ! c) \<and>
        (r + 1 < sizeN s \<longrightarrow> grid s ! (r + 1) ! c \<noteq> grid s ! r ! c))"

text \<open>Sequences of calls of \<open>move\<close>, \<open>undo\<close> and \<open>continueGame\<close> on one engine.\<close>

datatype call = Move string rnd | Undo | ContinueGame

fun perform :: "game \<Rightarrow> call \<Rightarrow> game" where
  "perform s (Move direction rn) = snd (move s direction rn)"
| "perform s Undo = snd (undo s)"
| "perform s ContinueGame = continueGame s"

definition performAll :: "game \<Rightarrow> call list \<Rightarrow> game" where
  "performAll s cs = fold (\<lambda>c t. perform t c) cs s"

text \<open>The flag is set and every snapshot on the stack was taken with the flag set.\<close>

definition wonKept :: "game \<Rightarrow> bool" where
  "wonKept s = (wonBefore s \<and> list_all h_wonBefore (history s))"

text \<open>
  A run of moves that are all committed: the snapshots of the engine before each move, in
  order, and the engine at the end. \<open>None\<close> when a move of the run returns \<open>null\<close>.
\<close>

fun playMoves :: "game \<Rightarrow> (string \<times> rnd) list \<Rightarrow> (snapshot list \<times> game) option" where
  "playMoves s [] = Some ([], s)"
| "playMoves s ((direction, rn) # ms) =
     (case move s direction rn of
        (None, s') \<Rightarrow> None
      | (Some res, s') \<Rightarrow>
          (case playMoves s' ms of
             None \<Rightarrow> None
           | Some (pre, t) \<Rightarrow> Some (snap s # pre, t)))"

section \<open>Engines used as examples\<close>

text \<open>Both draws of \<open>Math.random()\<close> are 0: the first empty cell gets a 2.\<close>

definition firstCellTwo :: rnd where
  "firstCellTwo = \<lparr>pick = 0, roll = 0\<rparr>"

definition undoState :: game where
  "undoState =
     \<lparr>sizeN = 2, grid = [[4, 2], [0, 2]], score = 4, bestScore = 12,
      history = [\<lparr>h_grid = [[2, 0], [0, 0]], h_score = 0, h_gameState = Playing,
                  h_wonBefore = False\<rparr>,
                 \<lparr>h_grid = [[2, 2], [0, 0]], h_score = 0, h_gameState = Playing,
                  h_wonBefore = False\<rparr>],
      maxHistory = 20, gameState = Playing, wonBefore = False, moveId = 7\<rparr>"

definition gridOnly :: serialized where
  "gridOnly = \<lparr>d_grid = Some [[2, 0], [0, 4]], d_score = None, d_bestScore = None,
     d_history = None, d_gameState = None, d_wonBefore = None, d_moveId = None\<rparr>"

definition noGrid :: serialized where
  "noGrid = \<lparr>d_grid = None, d_score = Some 64, d_bestScore = Some 128,
     d_history = Some [], d_gameState = Some Won, d_wonBefore = Some True, d_moveId = Some 9\<rparr>"

definition twoApart :: game where
  "twoApart = (Game 4)\<lparr>grid := [[0, 2, 0, 2], [0, 0, 0, 0], [0, 0, 0, 0], [0, 0, 0, 0]]\<rparr>"

definition winState :: game where
  "winState = (Game 4)\<lparr>grid := [[1024, 1024, 0, 0], [0, 0, 0, 0], [0, 0, 0, 0], [0, 0, 0, 0]]\<rparr>"

definition wonResult :: moveResult where
  "wonResult =
     \<lparr>res_moved = True,
      movements = [\<lparr>mv_from = (0, 0), mv_to = (0, 0), mv_value = 1024, mv_merged = True,
                     mv_mergedValue = Some 2048\<rparr>,
                   \<lparr>mv_from = (0, 1), mv_to = (0, 0), mv_value = 1024, mv_merged = True,
                     mv_mergedValue = Some 2048\<rparr>],
      mergedTiles = [2048], newTile = Some \<lparr>t_r = 0, t_c = 1, t_value = 2\<rparr>,
      res_scoreGain = 2048, res_gameState = Won\<rparr>"

definition wonEngine :: game where
  "wonEngine =
     \<lparr>sizeN = 4, grid = [[2048, 2, 0, 0], [0, 0, 0, 0], [0, 0, 0, 0], [0, 0, 0, 0]],
      score = 2048, bestScore = 2048,
      history = [\<lparr>h_grid = [[1024, 1024, 0, 0], [0, 0, 0, 0], [0, 0, 0, 0], [0, 0, 0, 0]],
                  h_score = 0, h_gameState = Playing, h_wonBefore = False\<rparr>],
      maxHistory = 20, gameState = Won, wonBefore = False, moveId = 1\<rparr>"

text \<open>The engine \<open>wonEngine\<close> after \<open>continueGame\<close>, and an engine further into that game.\<close>

definition continued :: game where
  "continued =
     \<lparr>sizeN = 4, grid = [[2048, 2, 0, 0], [0, 0, 0, 0], [0, 0, 0, 0], [0, 0, 0, 0]],
      score = 2048, bestScore = 2048,
      history = [\<lparr>h_grid = [[1024, 1024, 0, 0], [0, 0, 0, 0], [0, 0, 0, 0], [0, 0, 0, 0]],
                  h_score = 0, h_gameState = Playing, h_wonBefore = False\<rparr>],
      maxHistory = 20, gameState = Playing, wonBefore = True, moveId = 1\<rparr>"

definition laterOn :: game where
  "laterOn =
     \<lparr>sizeN = 4, grid = [[2048, 2, 2, 0], [0, 0, 0, 0], [0, 0, 0, 0], [0, 0, 0, 0]],
      score = 2048, bestScore = 2048,
      history = [\<lparr>h_grid = [[0, 0, 2048, 2], [0, 0, 0, 0], [0, 0, 0, 0], [0, 0, 0, 0]],
                  h_score = 2048, h_gameState = Playing, h_wonBefore = True\<rparr>],
      maxHistory = 20, gameState = Playing, wonBefore = True, moveId = 5\<rparr>"

text \<open>
  A game from \<open>init\<close> on, with every draw of \<open>Math.random()\<close> equal to 0: the 20 moves
  are all committed, and the engine they leave has every row packed to the left.
\<close>

definition fresh :: game where
  "fresh = init (Game 4) firstCellTwo firstCellTwo"

definition twentyMoves :: "(string \<times> rnd) list" where
  "twentyMoves = map (\<lambda>d. (d, firstCellTwo))
     (concat (replicate 5 [''left'', ''right'', ''left'', ''down'']))"

definition afterTwenty :: game where
  "afterTwenty = snd (the (playMoves fresh twentyMoves))"

text \<open>
  An engine whose history holds 20 snapshots, told apart by their scores, and whose top
  row is already packed to the left.
\<close>

definition atCapacity :: game where
  "atCapacity =
     \<lparr>sizeN = 4, grid = [[2, 4, 0, 0], [0, 0, 0, 0], [0, 0, 0, 0], [0, 0, 0, 0]],
      score = 19, bestScore = 19,
      history = map (\<lambda>k. \<lparr>h_grid = [[2, 0, 0, 4], [0, 0, 0, 0], [0, 0, 0, 0], [0, 0, 0, 0]],
                           h_score = int k, h_gameState = Playing, h_wonBefore = False\<rparr>)
                    [0..<20],
      maxHistory = 20, gameState = Playing, wonBefore = False, moveId = 20\<rparr>"

definition twoBig :: game where
  "twoBig = (Game 4)\<lparr>grid := [[2048, 2048, 0, 0], [0, 0, 0, 0], [0, 0, 0, 0], [0, 0, 0, 0]]\<rparr>"

definition bigResult :: moveResult where
  "bigResult =
     \<lparr>res_moved = True,
      movements = [\<lparr>mv_from = (0, 0), mv_to = (0, 0), mv_value = 2048, mv_merged = True,
                     mv_mergedValue = Some 4096\<rparr>,
                   \<lparr>mv_from = (0, 1), mv_to = (0, 0), mv_value = 2048, mv_merged = True,
                     mv_mergedValue = Some 4096\<rparr>],
      mergedTiles = [4096], newTile = Some \<lparr>t_r = 0, t_c = 1, t_value = 2\<rparr>,
      res_scoreGain = 4096, res_gameState = Playing\<rparr>"

definition bigEngine :: game where
  "bigEngine =
     \<lparr>sizeN = 4, grid = [[4096, 2, 0, 0], [0, 0, 0, 0], [0, 0, 0, 0], [0, 0, 0, 0]],
      score = 4096, bestScore = 4096,
      history = [\<lparr>h_grid = [[2048, 2048, 0, 0], [0, 0, 0, 0], [0, 0, 0, 0], [0, 0, 0, 0]],
                  h_score = 0, h_gameState = Playing, h_wonBefore = False\<rparr>],
      maxHistory = 20, gameState = Playing, wonBefore = False, moveId = 1\<rparr>"

definition winAndLose :: game where
  "winAndLose =
     (Game 4)\<lparr>grid := [[1024, 1024, 8, 4], [4, 16, 8, 4], [2, 4, 16, 8], [4, 2, 8, 16]]\<rparr>"

definition smallWinAndLose :: game where
  "smallWinAndLose = (Game 2)\<lparr>grid := [[1024, 1024], [4, 8]]\<rparr>"

definition lostResult :: moveResult where
  "lostResult =
     \<lparr>res_moved = True,
      movements = [\<lparr>mv_from = (0, 0), mv_to = (0, 0), mv_value = 1024, mv_merged = True,
                     mv_mergedValue = Some 2048\<rparr>,
                   \<lparr>mv_from = (0, 1), mv_to = (0, 0), mv_value = 1024, mv_merged = True,
                     mv_mergedValue = Some 2048\<rparr>,
                   \<lparr>mv_from = (1, 0), mv_to = (1, 0), mv_value = 4, mv_merged = False,
                     mv_mergedValue = None\<rparr>,
                   \<lparr>mv_from = (1, 1), mv_to = (1, 1), mv_value = 8, mv_merged = False,
                     mv_mergedValue = None\<rparr>],
      mergedTiles = [2048], newTile = Some \<lparr>t_r = 0, t_c = 1, t_value = 2\<rparr>,
      res_scoreGain = 2048, res_gameState = Lost\<rparr>"

definition lostEngine :: game where
  "lostEngine =
     \<lparr>sizeN = 2, grid = [[2048, 2], [4, 8]], score = 2048, bestScore = 2048,
      history = [\<lparr>h_grid = [[1024, 1024], [4, 8]], h_score = 0, h_gameState = Playing,
                  h_wonBefore = False\<rparr>],
      maxHistory = 20, gameState = Lost, wonBefore = False, moveId = 1\<rparr>"





text \<open>Persisted data whose history has 21 snapshots.\<close>

definition overlong :: serialized where
  "overlong =
     \<lparr>d_grid = Some [[2, 0, 0, 2], [0, 0, 0, 0], [0, 0, 0, 0], [0, 0, 0, 0]],
      d_score = Some 0, d_bestScore = Some 0,
      d_history =
        Some (replicate 21 \<lparr>h_grid = [[0, 2, 0, 2], [0, 0, 0, 0], [0, 0, 0, 0], [0, 0, 0, 0]],
                             h_score = 0, h_gameState = Playing, h_wonBefore = False\<rparr>),
      d_gameState = Some Playing, d_wonBefore = Some False, d_moveId = Some 21\<rparr>"

text \<open>A game of 25 moves, each of which changes the grid.\<close>

definition oneTile :: game where
  "oneTile = (Game 4)\<lparr>grid := [[0, 0, 0, 0], [0, 2, 0, 0], [0, 0, 0, 0], [0, 0, 0, 0]]\<rparr>"

definition twentyFive :: "(string \<times> rnd) list" where
  "twentyFive = map (\<lambda>d. (d, firstCellTwo))
     (concat (replicate 6 [''left'', ''up'', ''down'', ''right'']) @ [''left''])"

section \<open>What each method leaves alone\<close>

lemma cloneGrid_id: "cloneGrid g = g"
  by (simp add: cloneGrid_def)

lemma slideStep_pushHistory: "slideStep (pushHistory s) direction = slideStep s direction"
  by (simp add: slideStep_def pushHistory_def Let_def)

lemma addRandomTile_frame:
  "sizeN (snd (addRandomTile s rn)) = sizeN s"
  "score (snd (addRandomTile s rn)) = score s"
  "bestScore (snd (addRandomTile s rn)) = bestScore s"
  "history (snd (addRandomTile s rn)) = history s"
  "maxHistory (snd (addRandomTile s rn)) = maxHistory s"
  "gameState (snd (addRandomTile s rn)) = gameState s"
  "wonBefore (snd (addRandomTile s rn)) = wonBefore s"
  "moveId (snd (addRandomTile s rn)) = moveId s"
  by (simp_all add: addRandomTile_def Let_def)

lemma commit_frame:
  "sizeN (commit s direction a) = sizeN s"
  "history (commit s direction a) = history s"
  "maxHistory (commit s direction a) = maxHistory s"
  "gameState (commit s direction a) = gameState s"
  "wonBefore (commit s direction a) = wonBefore s"
  "moveId (commit s direction a) = moveId s + 1"
  "score (commit s direction a) = jsAdd (score s) (totalScoreGain a)"
  "grid (commit s direction a) =
     (rotateGrid ^^ loopCount (unrotOf (rotations direction))) (workGrid a)"
  by (simp_all add: commit_def Let_def)

lemma pushHistory_frame:
  "sizeN (pushHistory s) = sizeN s"
  "grid (pushHistory s) = grid s"
  "score (pushHistory s) = score s"
  "bestScore (pushHistory s) = bestScore s"
  "maxHistory (pushHistory s) = maxHistory s"
  "gameState (pushHistory s) = gameState s"
  "wonBefore (pushHistory s) = wonBefore s"
  "moveId (pushHistory s) = moveId s"
  by (simp_all add: pushHistory_def Let_def)

lemma performAll_simps [simp]:
  "performAll s [] = s"
  "performAll s (c # cs) = performAll (perform s c) cs"
  by (simp_all add: performAll_def)

section \<open>The three outcomes of a move\<close>

lemma move_rejected: "rejected s \<Longrightarrow> move s direction rn = (None, s)"
  by (auto simp: move_def rejected_def)

lemma move_noop:
  "\<not> rejected s \<Longrightarrow> \<not> moved (slideStep s direction) \<Longrightarrow>
   move s direction rn = (None, (pushHistory s)\<lparr>history := butlast (history (pushHistory s))\<rparr>)"
  by (auto simp: move_def rejected_def Let_def slideStep_pushHistory)

lemma move_Some_iff:
  "(fst (move s direction rn) \<noteq> None) = (\<not> rejected s \<and> moved (slideStep s direction))"
  by (auto simp: move_def rejected_def Let_def slideStep_pushHistory)

lemma move_wonBefore: "wonBefore (snd (move s direction rn)) = wonBefore s"
  by (simp add: move_def Let_def addRandomTile_frame commit_frame pushHistory_frame)

lemma move_maxHistory: "maxHistory (snd (move s direction rn)) = maxHistory s"
  by (simp add: move_def Let_def addRandomTile_frame commit_frame pushHistory_frame)

lemma move_history:
  "history (snd (move s direction rn)) =
     (if rejected s then history s
      else if moved (slideStep s direction) then history (pushHistory s)
      else butlast (history (pushHistory s)))"
  by (simp add: move_def rejected_def Let_def addRandomTile_frame commit_frame
      slideStep_pushHistory)

lemma move_result:
  assumes "move s direction rn = (Some res, s')"
  shows "\<not> rejected s" and "moved (slideStep s direction)"
    and "mergedTiles res = allMerged (slideStep s direction)"
    and "res_scoreGain res = totalScoreGain (slideStep s direction)"
    and "newTile res =
           fst (addRandomTile (commit (pushHistory s) direction (slideStep s direction)) rn)"
    and "grid s' =
           grid (snd (addRandomTile (commit (pushHistory s) direction (slideStep s direction)) rn))"
    and "score s' = jsAdd (score s) (totalScoreGain (slideStep s direction))"
    and "res_gameState res = gameState s'"
  using assms
  by (auto simp: move_def rejected_def Let_def slideStep_pushHistory addRandomTile_frame
      commit_frame pushHistory_frame split: if_splits)

text \<open>
  A move that is turned down changes nothing. A move that slides nothing changes nothing
  as long as the history is below its capacity; at capacity the snapshot it pushed has
  already pushed the oldest one out, and popping it again leaves the history one short.
\<close>

lemma move_noop_below_capacity:
  assumes "\<not> rejected s" "\<not> moved (slideStep s direction)" "length (history s) < maxHistory s"
  shows "move s direction rn = (None, s)"
  using assms by (simp add: move_noop pushHistory_def Let_def)

lemma move_noop_at_capacity:
  assumes "\<not> rejected s" "\<not> moved (slideStep s direction)" "maxHistory s \<le> length (history s)"
  shows "move s direction rn = (None, s\<lparr>history := tl (history s)\<rparr>)"
proof (cases "history s")
  case Nil
  then show ?thesis using assms by (simp add: move_noop pushHistory_def Let_def)
next
  case (Cons h hs)
  then show ?thesis using assms
    by (simp add: move_noop pushHistory_def Let_def butlast_append)
qed

text \<open>
  Claim C1. A move that is rejected or that slides nothing is to return no result and to
  leave grid, score, state, flag and history as they were. The code does not when the
  history is full. The game \<open>twentyMoves\<close> played from \<open>fresh\<close> leaves an engine in state
  \<open>Playing\<close> with 20 snapshots in its history; on it the move to the left slides nothing
  and returns no result, and the history it leaves has 19 snapshots, the oldest one gone.
\<close>

theorem full_history_noop_drops_snapshot:
  "grid fresh = [[2, 2, 0, 0], [0, 0, 0, 0], [0, 0, 0, 0], [0, 0, 0, 0]] \<and>
   playMoves fresh twentyMoves \<noteq> None \<and>
   length twentyMoves = 20 \<and>
   grid afterTwenty = [[2, 0, 0, 0], [2, 0, 0, 0], [8, 4, 0, 0], [16, 8, 4, 0]] \<and>
   gameState afterTwenty = Playing \<and>
   length (history afterTwenty) = 20 \<and>
   fst (move afterTwenty ''left'' firstCellTwo) = None \<and>
   length (history (snd (move afterTwenty ''left'' firstCellTwo))) = 19 \<and>
   history (snd (move afterTwenty ''left'' firstCellTwo)) = tl (history afterTwenty) \<and>
   history (snd (move afterTwenty ''left'' firstCellTwo)) \<noteq> history afterTwenty"
  by code_simp

section \<open>Undo\<close>

text \<open>
  Claim C7. \<open>undo\<close> returns false and changes nothing when the history is empty. Otherwise
  it returns true, removes exactly the last snapshot of the history, and installs that
  snapshot's grid, score, state and flag; the move counter, the best score, the size and
  the capacity stay as they are, and the grid is the snapshot's grid with no tile added.
\<close>

theorem undo_pops_and_restores:
  "(history s = [] \<longrightarrow> undo s = (False, s)) \<and>
   (history s \<noteq> [] \<longrightarrow>
      fst (undo s) = True \<and>
      history s = history (snd (undo s)) @ [last (history s)] \<and>
      length (history (snd (undo s))) + 1 = length (history s) \<and>
      grid (snd (undo s)) = h_grid (last (history s)) \<and>
      score (snd (undo s)) = h_score (last (history s)) \<and>
      gameState (snd (undo s)) = h_gameState (last (history s)) \<and>
      wonBefore (snd (undo s)) = h_wonBefore (last (history s)) \<and>
      moveId (snd (undo s)) = moveId s \<and>
      bestScore (snd (undo s)) = bestScore s \<and>
      sizeN (snd (undo s)) = sizeN s \<and>
      maxHistory (snd (undo s)) = maxHistory s)"
  by (simp add: undo_def Let_def)

theorem undo_pops_and_restores_witness:
  "undo (Game 4) = (False, Game 4) \<and>
   history undoState \<noteq> [] \<and>
   fst (undo undoState) = True \<and>
   length (history (snd (undo undoState))) = 1 \<and>
   grid (snd (undo undoState)) = [[2, 2], [0, 0]] \<and>
   score (snd (undo undoState)) = 0 \<and>
   moveId (snd (undo undoState)) = 7"
  using undo_pops_and_restores [of "Game 4"] undo_pops_and_restores [of undoState]
  by (simp add: undoState_def Game_def)

text \<open>
  After a committed move, \<open>undo\<close> brings back the grid, score, state and flag the engine
  had before the move.
\<close>

lemma undo_after_move:
  assumes "move s direction rn = (Some res, s')" and "0 < maxHistory s"
  shows "fst (undo s') = True" and "grid (snd (undo s')) = grid s"
    and "score (snd (undo s')) = score s" and "gameState (snd (undo s')) = gameState s"
    and "wonBefore (snd (undo s')) = wonBefore s"
    and "length (history (snd (undo s'))) + 1 = length (history s')"
proof -
  have hs': "history s' = history (pushHistory s)"
    using move_history [of s direction rn] move_result(1,2) [OF assms(1)] assms(1) by simp
  have "history (pushHistory s) \<noteq> [] \<and> last (history (pushHistory s)) = snap s"
  proof (cases "history s")
    case Nil
    then show ?thesis using assms(2) by (simp add: pushHistory_def Let_def)
  next
    case (Cons h hs)
    then show ?thesis by (simp add: pushHistory_def Let_def)
  qed
  then have ne: "history s' \<noteq> []" and lst: "last (history s') = snap s"
    using hs' by simp_all
  show "fst (undo s') = True" and "grid (snd (undo s')) = grid s"
    and "score (snd (undo s')) = score s" and "gameState (snd (undo s')) = gameState s"
    and "wonBefore (snd (undo s')) = wonBefore s"
    and "length (history (snd (undo s'))) + 1 = length (history s')"
    using ne lst by (simp_all add: undo_def Let_def snap_def cloneGrid_id)
qed

section \<open>Restoring persisted data\<close>

text \<open>
  Claim C9. \<open>deserialize\<close> returns false exactly when the data or its grid is missing, and
  then the engine is unchanged. With a grid it returns true and installs the grid; every
  other field is taken from the data, or is its default when the data lacks it: score 0,
  best score 0, state \<open>Playing\<close>, flag false, move counter 0, empty history.
\<close>

theorem deserialize_needs_grid:
  "(fst (deserialize s data) = False \<longleftrightarrow>
      (data = None \<or> (\<exists>d. data = Some d \<and> d_grid d = None))) \<and>
   (fst (deserialize s data) = False \<longrightarrow> snd (deserialize s data) = s) \<and>
   (\<forall>d g. data = Some d \<and> d_grid d = Some g \<longrightarrow>
      fst (deserialize s data) = True \<and>
      grid (snd (deserialize s data)) = g \<and>
      score (snd (deserialize s data)) = (case d_score d of None \<Rightarrow> 0 | Some v \<Rightarrow> v) \<and>
      bestScore (snd (deserialize s data)) =
        (case d_bestScore d of None \<Rightarrow> 0 | Some v \<Rightarrow> v) \<and>
      gameState (snd (deserialize s data)) =
        (case d_gameState d of None \<Rightarrow> Playing | Some v \<Rightarrow> v) \<and>
      wonBefore (snd (deserialize s data)) =
        (case d_wonBefore d of None \<Rightarrow> False | Some v \<Rightarrow> v) \<and>
      moveId (snd (deserialize s data)) = (case d_moveId d of None \<Rightarrow> 0 | Some v \<Rightarrow> v) \<and>
      history (snd (deserialize s data)) = (case d_history d of None \<Rightarrow> [] | Some v \<Rightarrow> v) \<and>
      sizeN (snd (deserialize s data)) = sizeN s \<and>
      maxHistory (snd (deserialize s data)) = maxHistory s)"
  by (auto simp: deserialize_def orElse_def split: option.splits)

theorem deserialize_needs_grid_witness:
  "d_grid noGrid = None \<and>
   deserialize undoState (Some noGrid) = (False, undoState) \<and>
   deserialize undoState None = (False, undoState) \<and>
   d_grid gridOnly = Some [[2, 0], [0, 4]] \<and>
   fst (deserialize undoState (Some gridOnly)) = True \<and>
   grid (snd (deserialize undoState (Some gridOnly))) = [[2, 0], [0, 4]] \<and>
   score (snd (deserialize undoState (Some gridOnly))) = 0 \<and>
   gameState (snd (deserialize undoState (Some gridOnly))) = Playing \<and>
   wonBefore (snd (deserialize undoState (Some gridOnly))) = False \<and>
   moveId (snd (deserialize undoState (Some gridOnly))) = 0 \<and>
   history (snd (deserialize undoState (Some gridOnly))) = []"
proof -
  have a: "d_grid noGrid = None" by (simp add: noGrid_def)
  have b: "d_grid gridOnly = Some [[2, 0], [0, 4]]" by (simp add: gridOnly_def)
  have c: "d_score gridOnly = None \<and> d_gameState gridOnly = None \<and>
           d_wonBefore gridOnly = None \<and> d_moveId gridOnly = None \<and>
           d_history gridOnly = None"
    by (simp add: gridOnly_def)
  show ?thesis
    using deserialize_needs_grid [of undoState "Some noGrid"]
      deserialize_needs_grid [of undoState None]
      deserialize_needs_grid [of undoState "Some gridOnly"] a b c
    by (simp add: prod_eq_iff)
qed

section \<open>Directions outside the table\<close>

lemma rotations_unknown:
  "direction \<notin> {''left'', ''up'', ''right'', ''down''} \<Longrightarrow> rotations direction = None"
  by (simp add: rotations_def)

lemma rotations_left: "rotations ''left'' = Some 0"
  by (simp add: rotations_def)

text \<open>
  Claim C10. For a direction that is none of left, up, right and down, \<open>move\<close> rotates the
  grid zero times before the slide and zero times after it, and returns the result and
  the engine that \<open>move\<close> to the left returns on the same engine and draws. It is turned
  down only when the move to the left is.
\<close>

theorem move_unknown_direction_as_left:
  assumes "direction \<notin> {''left'', ''up'', ''right'', ''down''}"
  shows "loopCount (rotations direction) = 0 \<and>
         loopCount (unrotOf (rotations direction)) = 0 \<and>
         move s direction rn = move s ''left'' rn"
proof -
  have none: "rotations direction = None"
    using assms by (rule rotations_unknown)
  have fwd: "loopCount (rotations direction) = loopCount (rotations ''left'')"
    by (simp add: none rotations_left loopCount_def)
  have bwd: "loopCount (unrotOf (rotations direction)) = loopCount (unrotOf (rotations ''left''))"
    by (simp add: none rotations_left loopCount_def unrotOf_def)
  have sl: "\<And>t. slideStep t direction = slideStep t ''left''"
    by (simp add: slideStep_def fwd)
  have cm: "\<And>t a. commit t direction a = commit t ''left'' a"
    by (simp add: commit_def bwd)
  have "move s direction rn = move s ''left'' rn"
    by (simp add: move_def sl cm none rotations_left unrotOf_def loopCount_def Let_def)
  then show ?thesis
    by (simp add: none loopCount_def unrotOf_def)
qed

theorem move_unknown_direction_as_left_witness:
  "''sideways'' \<notin> {''left'', ''up'', ''right'', ''down''} \<and>
   move twoApart ''sideways'' firstCellTwo = move twoApart ''left'' firstCellTwo \<and>
   grid (snd (move twoApart ''sideways'' firstCellTwo)) =
     [[4, 2, 0, 0], [0, 0, 0, 0], [0, 0, 0, 0], [0, 0, 0, 0]]"
proof -
  have ne: "''sideways'' \<notin> {''left'', ''up'', ''right'', ''down''}" by simp
  have ev: "grid (snd (move twoApart ''left'' firstCellTwo)) =
              [[4, 2, 0, 0], [0, 0, 0, 0], [0, 0, 0, 0], [0, 0, 0, 0]]"
    by code_simp
  show ?thesis
    using move_unknown_direction_as_left [OF ne, of twoApart firstCellTwo] ne ev by simp
qed

section \<open>The flag wonBefore\<close>

lemma pushHistory_history_set:
  "set (history (pushHistory s)) \<subseteq> insert (snap s) (set (history s))"
  by (auto simp: pushHistory_def Let_def dest: list.set_sel(2) [rotated])

lemma move_history_set:
  "set (history (snd (move s direction rn))) \<subseteq> insert (snap s) (set (history s))"
  using pushHistory_history_set [of s]
  by (auto simp: move_history dest: in_set_butlastD)

lemma wonKept_perform: "wonKept s \<Longrightarrow> wonKept (perform s c)"
proof (cases c)
  case (Move direction rn)
  assume k: "wonKept s"
  have "\<forall>h \<in> set (history (snd (move s direction rn))). h_wonBefore h"
    using move_history_set [of s direction rn] k
    by (auto simp: wonKept_def list_all_iff snap_def)
  then show ?thesis using k Move
    by (simp add: wonKept_def list_all_iff move_wonBefore)
next
  case Undo
  assume k: "wonKept s"
  then show ?thesis using Undo
    by (auto simp: wonKept_def undo_def Let_def list_all_iff dest: in_set_butlastD)
next
  case ContinueGame
  assume "wonKept s"
  then show ?thesis using ContinueGame
    by (simp add: wonKept_def continueGame_def)
qed

lemma wonKept_performAll: "wonKept s \<Longrightarrow> wonKept (performAll s cs)"
  by (induction cs arbitrary: s) (simp_all add: wonKept_perform)

lemma wonBefore_no_undo: "wonBefore s \<Longrightarrow> Undo \<notin> set cs \<Longrightarrow> wonBefore (performAll s cs)"
proof (induction cs arbitrary: s)
  case Nil
  then show ?case by simp
next
  case (Cons c cs)
  have "wonBefore (perform s c)"
    using Cons.prems by (cases c) (simp_all add: move_wonBefore continueGame_def)
  then show ?case using Cons by simp
qed

text \<open>
  Claim C2, as the code has it. In a sequence of \<open>move\<close> and \<open>continueGame\<close> calls the flag,
  once true, stays true. \<open>undo\<close> sets the flag to the value the popped snapshot recorded:
  in a sequence with \<open>undo\<close> calls the flag stays true as long as every snapshot on the
  stack was taken with the flag set.
\<close>

theorem wonBefore_kept_unless_undone:
  "(wonBefore s \<and> Undo \<notin> set cs \<longrightarrow> wonBefore (performAll s cs)) \<and>
   (wonBefore s \<and> list_all h_wonBefore (history s) \<longrightarrow> wonBefore (performAll s cs)) \<and>
   (history s \<noteq> [] \<longrightarrow> wonBefore (snd (undo s)) = h_wonBefore (last (history s)))"
proof (intro conjI impI)
  assume "wonBefore s \<and> Undo \<notin> set cs"
  then show "wonBefore (performAll s cs)" by (simp add: wonBefore_no_undo)
next
  assume "wonBefore s \<and> list_all h_wonBefore (history s)"
  then have "wonKept (performAll s cs)"
    by (intro wonKept_performAll) (simp add: wonKept_def)
  then show "wonBefore (performAll s cs)" by (simp add: wonKept_def)
next
  assume "history s \<noteq> []"
  then show "wonBefore (snd (undo s)) = h_wonBefore (last (history s))"
    by (simp add: undo_def Let_def)
qed

theorem wonBefore_kept_unless_undone_witness:
  "wonBefore continued \<and> Undo \<notin> set [Move ''right'' firstCellTwo, ContinueGame] \<and>
   wonBefore (performAll continued [Move ''right'' firstCellTwo, ContinueGame]) \<and>
   wonBefore laterOn \<and> list_all h_wonBefore (history laterOn) \<and>
   wonBefore (performAll laterOn [Move ''left'' firstCellTwo, Undo, Undo]) \<and>
   history continued \<noteq> [] \<and>
   wonBefore (snd (undo continued)) = False"
proof -
  have a: "wonBefore continued \<and> Undo \<notin> set [Move ''right'' firstCellTwo, ContinueGame]"
    by (simp add: continued_def)
  have b: "wonBefore laterOn \<and> list_all h_wonBefore (history laterOn)"
    by (simp add: laterOn_def)
  have c: "history continued \<noteq> [] \<and> h_wonBefore (last (history continued)) = False"
    by (simp add: continued_def)
  show ?thesis
    using wonBefore_kept_unless_undone [of continued "[Move ''right'' firstCellTwo, ContinueGame]"]
      wonBefore_kept_unless_undone [of laterOn "[Move ''left'' firstCellTwo, Undo, Undo]"]
      a b c
    by simp
qed

text \<open>
  The claim as stated fails: the move to the left on \<open>winState\<close> merges 1024 and 1024,
  \<open>continueGame\<close> sets the flag, and \<open>undo\<close> then restores the snapshot taken before the
  move, whose flag is false.
\<close>

theorem wonBefore_reset_by_undo:
  "wonBefore (performAll winState [Move ''left'' firstCellTwo, ContinueGame]) \<and>
   \<not> wonBefore (performAll winState [Move ''left'' firstCellTwo, ContinueGame, Undo])"
  by code_simp

section \<open>Sliding a row\<close>

lemma slideLoop_groups:
  "\<exists>gs. concat gs = xs \<and>
        (\<forall>g \<in> set gs. \<exists>a. g = [a] \<or> g = [a, a]) \<and>
        row (slideLoop xs acc) = row acc @ map sum_list gs \<and>
        merged (slideLoop xs acc) = merged acc @ map sum_list (filter (\<lambda>g. length g = 2) gs)"
proof (induction xs acc rule: slideLoop.induct)
  case (1 a b rest acc)
  show ?case
  proof (cases "a = b")
    case True
    let ?acc = "\<lparr>row = row acc @ [a * 2], merged = merged acc @ [a * 2],
                 scoreGain = jsAdd (scoreGain acc) (a * 2),
                 mergePositions = mergePositions acc @ [length (row acc @ [a * 2]) - 1]\<rparr>"
    from 1(1) [OF True refl] obtain gs where
      gs: "concat gs = rest" "\<forall>g \<in> set gs. \<exists>a. g = [a] \<or> g = [a, a]"
          "row (slideLoop rest ?acc) = row ?acc @ map sum_list gs"
          "merged (slideLoop rest ?acc) =
             merged ?acc @ map sum_list (filter (\<lambda>g. length g = 2) gs)"
      by blast
    show ?thesis
      using True gs by (intro exI [of _ "[a, a] # gs"]) (simp add: Let_def)
  next
    case False
    from 1(2) [OF False] obtain gs where
      gs: "concat gs = b # rest" "\<forall>g \<in> set gs. \<exists>a. g = [a] \<or> g = [a, a]"
          "row (slideLoop (b # rest) (acc\<lparr>row := row acc @ [a]\<rparr>)) =
             row (acc\<lparr>row := row acc @ [a]\<rparr>) @ map sum_list gs"
          "merged (slideLoop (b # rest) (acc\<lparr>row := row acc @ [a]\<rparr>)) =
             merged (acc\<lparr>row := row acc @ [a]\<rparr>) @
             map sum_list (filter (\<lambda>g. length g = 2) gs)"
      by blast
    show ?thesis
      using False gs by (intro exI [of _ "[a] # gs"]) simp
  qed
next
  case (2 a acc)
  show ?case by (rule exI [of _ "[[a]]"]) simp
next
  case (3 acc)
  show ?case by (rule exI [of _ "[]"]) simp
qed

lemma slideLoop_sum:
  "sum_list (row (slideLoop xs acc)) = sum_list (row acc) + sum_list xs"
  by (induction xs acc rule: slideLoop.induct) (simp_all add: Let_def)


text \<open>
  Sums above \<open>2 ^ 53\<close> as JavaScript gives them: \<open>2 ^ 53 + 1\<close> is \<open>2 ^ 53\<close>, \<open>2 ^ 53 + 3\<close>
  is \<open>2 ^ 53 + 4\<close>, and \<open>2 ^ 55 + 4\<close> is \<open>2 ^ 55\<close>.
\<close>

lemma jsAdd_rounds:
  "jsAdd 9007199254740992 1 = 9007199254740992"
  "jsAdd 9007199254740992 2 = 9007199254740994"
  "jsAdd 9007199254740992 3 = 9007199254740996"
  "jsAdd 36028797018963968 4 = 36028797018963968"
  "jsAdd (- 9007199254740992) (- 3) = - 9007199254740996"
  by code_simp+


lemma slideLoop_length:
  "length (row (slideLoop xs acc)) \<le> length (row acc) + length xs"
  by (induction xs acc rule: slideLoop.induct) (auto simp: Let_def)

lemma sum_list_nonzero: "sum_list (filter (\<lambda>v. v \<noteq> 0) rw) = sum_list (rw :: int list)"
  by (induction rw) simp_all

lemma slideRow_sum: "sum_list (row (slideRow rw)) = sum_list rw"
  by (simp add: slideRow_def Let_def slideLoop_sum sum_list_nonzero sum_list_replicate)


lemma slideRow_length: "length (row (slideRow rw)) = length rw"
proof -
  let ?res = "slideLoop (filter (\<lambda>v. v \<noteq> 0) rw)
                \<lparr>row = [], merged = [], scoreGain = 0, mergePositions = []\<rparr>"
  have "length (row ?res) \<le> length (filter (\<lambda>v. v \<noteq> 0) rw)"
    using slideLoop_length [of "filter (\<lambda>v. v \<noteq> 0) rw"
                               "\<lparr>row = [], merged = [], scoreGain = 0, mergePositions = []\<rparr>"]
    by simp
  also have "\<dots> \<le> length rw" by simp
  finally show ?thesis by (simp add: slideRow_def Let_def)
qed

text \<open>
  Claim C5. A cell that a merge has just made is not merged again in the same pass. The
  non-zero tiles of a row, in order, split into groups of one tile or of two equal tiles;
  each cell of the slid row is the sum of one group, followed by zeros up to the length
  of the row, and the merged values are the sums of the groups of two. So each cell comes
  from at most two tiles; and the row 2, 2, 2, 2 slides to 4, 4, 0, 0, not to 8, 0, 0, 0.
\<close>

theorem slideRow_merges_once:
  "(\<exists>gs. concat gs = filter (\<lambda>v. v \<noteq> 0) rw \<and>
         (\<forall>g \<in> set gs. \<exists>a. g = [a] \<or> g = [a, a]) \<and>
         row (slideRow rw) = map sum_list gs @ replicate (length rw - length gs) 0 \<and>
         merged (slideRow rw) = map sum_list (filter (\<lambda>g. length g = 2) gs)) \<and>
   row (slideRow [2, 2, 2, 2]) = [4, 4, 0, 0] \<and>
   row (slideRow [2, 2, 2, 2]) \<noteq> [8, 0, 0, 0]"
proof -
  obtain gs where
    gs: "concat gs = filter (\<lambda>v. v \<noteq> 0) rw" "\<forall>g \<in> set gs. \<exists>a. g = [a] \<or> g = [a, a]"
        "row (slideLoop (filter (\<lambda>v. v \<noteq> 0) rw)
                \<lparr>row = [], merged = [], scoreGain = 0, mergePositions = []\<rparr>) =
           [] @ map sum_list gs"
        "merged (slideLoop (filter (\<lambda>v. v \<noteq> 0) rw)
                \<lparr>row = [], merged = [], scoreGain = 0, mergePositions = []\<rparr>) =
           [] @ map sum_list (filter (\<lambda>g. length g = 2) gs)"
    using slideLoop_groups [of "filter (\<lambda>v. v \<noteq> 0) rw"
                               "\<lparr>row = [], merged = [], scoreGain = 0, mergePositions = []\<rparr>"]
    by auto
  have "concat gs = filter (\<lambda>v. v \<noteq> 0) rw \<and>
         (\<forall>g \<in> set gs. \<exists>a. g = [a] \<or> g = [a, a]) \<and>
         row (slideRow rw) = map sum_list gs @ replicate (length rw - length gs) 0 \<and>
         merged (slideRow rw) = map sum_list (filter (\<lambda>g. length g = 2) gs)"
    using gs by (simp add: slideRow_def Let_def)
  then have "\<exists>gs. concat gs = filter (\<lambda>v. v \<noteq> 0) rw \<and>
         (\<forall>g \<in> set gs. \<exists>a. g = [a] \<or> g = [a, a]) \<and>
         row (slideRow rw) = map sum_list gs @ replicate (length rw - length gs) 0 \<and>
         merged (slideRow rw) = map sum_list (filter (\<lambda>g. length g = 2) gs)"
    by (rule exI)
  moreover have "row (slideRow [2, 2, 2, 2]) = [4, 4, 0, 0]"
    by (simp add: slideRow_def)
  ultimately show ?thesis by simp
qed

theorem slideRow_merges_once_witness:
  "(\<exists>gs. concat gs = [2, 2, 2, 4 :: int] \<and>
         set gs \<noteq> {} \<and>
         row (slideRow [2, 0, 2, 2, 4]) = map sum_list gs @ replicate (5 - length gs) 0 \<and>
         merged (slideRow [2, 0, 2, 2, 4]) = map sum_list (filter (\<lambda>g. length g = 2) gs)) \<and>
   row (slideRow [2, 0, 2, 2, 4]) = [4, 2, 4, 0, 0] \<and>
   merged (slideRow [2, 0, 2, 2, 4]) = [4] \<and>
   row (slideRow [2, 2, 2, 2]) = [4, 4, 0, 0]"
proof -
  have ev: "row (slideRow [2, 0, 2, 2, 4]) = [4, 2, 4, 0, 0] \<and>
            merged (slideRow [2, 0, 2, 2, 4]) = [4]"
    by (simp add: slideRow_def)
  from slideRow_merges_once [of "[2, 0, 2, 2, 4]"] obtain gs where
    gs: "concat gs = filter (\<lambda>v. v \<noteq> 0) [2, 0, 2, 2, 4 :: int]"
        "row (slideRow [2, 0, 2, 2, 4]) =
           map sum_list gs @ replicate (length [2, 0, 2, 2, 4 :: int] - length gs) 0"
        "merged (slideRow [2, 0, 2, 2, 4]) = map sum_list (filter (\<lambda>g. length g = 2) gs)"
    by blast
  have "concat gs = [2, 2, 2, 4 :: int] \<and> set gs \<noteq> {} \<and>
         row (slideRow [2, 0, 2, 2, 4]) = map sum_list gs @ replicate (5 - length gs) 0 \<and>
         merged (slideRow [2, 0, 2, 2, 4]) = map sum_list (filter (\<lambda>g. length g = 2) gs)"
    using gs by auto
  then have "\<exists>gs. concat gs = [2, 2, 2, 4 :: int] \<and> set gs \<noteq> {} \<and>
         row (slideRow [2, 0, 2, 2, 4]) = map sum_list gs @ replicate (5 - length gs) 0 \<and>
         merged (slideRow [2, 0, 2, 2, 4]) = map sum_list (filter (\<lambda>g. length g = 2) gs)"
    by (rule exI)
  then show ?thesis
    using ev slideRow_merges_once [of "[2, 0, 2, 2, 4]"] by simp
qed

section \<open>Rotation\<close>

lemma fold_column_writes:
  "m \<le> n \<Longrightarrow> length rot = n \<Longrightarrow>
   fold (\<lambda>c rotated. rotated[c := (rotated ! c)[k := f c]]) [0..<m] rot =
   map (\<lambda>i. if i < m then (rot ! i)[k := f i] else rot ! i) [0..<n]"
proof (induction m)
  case 0
  then show ?case by (auto intro: nth_equalityI)
next
  case (Suc m)
  then have m: "m < n" and len: "length rot = n" by simp_all
  have ih: "fold (\<lambda>c rotated. rotated[c := (rotated ! c)[k := f c]]) [0..<m] rot =
            map (\<lambda>i. if i < m then (rot ! i)[k := f i] else rot ! i) [0..<n]"
    using Suc by simp
  show ?case
    using m len by (simp add: ih) (rule nth_equalityI, auto simp: nth_list_update less_Suc_eq)
qed

text \<open>The two loops of \<open>rotateGrid\<close> in closed form: cell \<open>(i, j)\<close> of the result.\<close>

lemma rotateGrid_closed:
  "rotateGrid g =
     map (\<lambda>i. map (\<lambda>j. g ! (length g - 1 - j) ! i) [0..<length g]) [0..<length g]"
proof -
  define n where "n = length g"
  define step where
    "step = (\<lambda>r rotated. fold (\<lambda>c rotated. rotated[c := (rotated ! c)[n - 1 - r := g ! r ! c]])
                              [0..<n] rotated)"
  have partial: "m \<le> n \<Longrightarrow>
      fold step [0..<m] (replicate n (replicate n 0)) =
      map (\<lambda>i. map (\<lambda>j. if n - 1 - j < m then g ! (n - 1 - j) ! i else 0) [0..<n]) [0..<n]" for m
  proof (induction m)
    case 0
    show ?case by (rule nth_equalityI) (auto intro: nth_equalityI)
  next
    case (Suc m)
    then have m: "m < n" by simp
    let ?G = "map (\<lambda>i. map (\<lambda>j. if n - 1 - j < m then g ! (n - 1 - j) ! i else 0) [0..<n])
                  [0..<n]"
    have ih: "fold step [0..<m] (replicate n (replicate n 0)) = ?G"
      using Suc by simp
    have "step m ?G =
            map (\<lambda>i. if i < n then (?G ! i)[n - 1 - m := g ! m ! i] else ?G ! i) [0..<n]"
      unfolding step_def by (rule fold_column_writes) simp_all
    also have "\<dots> = map (\<lambda>i. map (\<lambda>j. if n - 1 - j < Suc m then g ! (n - 1 - j) ! i else 0)
                                  [0..<n]) [0..<n]"
      using m by (auto simp: list_eq_iff_nth_eq nth_list_update less_Suc_eq)
    finally show ?case by (simp add: ih)
  qed
  have "rotateGrid g = fold step [0..<n] (replicate n (replicate n 0))"
    by (simp add: rotateGrid_def step_def n_def Let_def)
  also have "\<dots> = map (\<lambda>i. map (\<lambda>j. if n - 1 - j < n then g ! (n - 1 - j) ! i else 0) [0..<n])
                       [0..<n]"
    by (rule partial) simp
  also have "\<dots> = map (\<lambda>i. map (\<lambda>j. g ! (n - 1 - j) ! i) [0..<n]) [0..<n]"
    by (rule nth_equalityI) (auto intro!: nth_equalityI)
  finally show ?thesis by (simp add: n_def)
qed

lemma square_rotateGrid: "square (length g) (rotateGrid g)"
  by (simp add: rotateGrid_closed square_def list_all_iff)

lemma tileSum_square:
  assumes "square n g"
  shows "tileSum g = (\<Sum>r = 0..<n. \<Sum>c = 0..<n. g ! r ! c)"
proof -
  have "tileSum g = (\<Sum>r = 0..<n. sum_list (g ! r))"
    using assms by (simp add: tileSum_def square_def sum_list_sum_nth)
  also have "\<dots> = (\<Sum>r = 0..<n. \<Sum>c = 0..<n. g ! r ! c)"
    using assms by (intro sum.cong) (auto simp: square_def list_all_length sum_list_sum_nth)
  finally show ?thesis .
qed

lemma tileSum_rotateGrid:
  assumes "square n g"
  shows "tileSum (rotateGrid g) = tileSum g"
proof -
  have n: "length g = n" using assms by (simp add: square_def)
  have "square n (rotateGrid g)" using square_rotateGrid [of g] n by simp
  then have "tileSum (rotateGrid g) = (\<Sum>i = 0..<n. \<Sum>j = 0..<n. rotateGrid g ! i ! j)"
    by (rule tileSum_square)
  also have "\<dots> = (\<Sum>i = 0..<n. \<Sum>j = 0..<n. g ! (n - 1 - j) ! i)"
    by (intro sum.cong) (auto simp: rotateGrid_closed n)
  also have "\<dots> = (\<Sum>j = 0..<n. \<Sum>i = 0..<n. g ! (n - 1 - j) ! i)"
    by (rule sum.swap)
  also have "\<dots> = (\<Sum>r = 0..<n. \<Sum>i = 0..<n. g ! r ! i)"
    using sum.atLeastLessThan_rev [of "\<lambda>r. \<Sum>i = 0..<n. g ! r ! i" 0 n] by simp
  also have "\<dots> = tileSum g"
    using assms by (simp add: tileSum_square)
  finally show ?thesis .
qed

lemma rotations_keep_square_and_sum:
  "square n g \<Longrightarrow>
   square n ((rotateGrid ^^ k) g) \<and> tileSum ((rotateGrid ^^ k) g) = tileSum g"
proof (induction k)
  case 0
  then show ?case by simp
next
  case (Suc k)
  then have sq: "square n ((rotateGrid ^^ k) g)"
    and ts: "tileSum ((rotateGrid ^^ k) g) = tileSum g"
    by simp_all
  have len: "length ((rotateGrid ^^ k) g) = n" using sq by (simp add: square_def)
  show ?case
    using square_rotateGrid [of "(rotateGrid ^^ k) g"] tileSum_rotateGrid [OF sq] ts len
    by simp
qed

section \<open>The loop over the rows\<close>

lemma rowStep_fields:
  "workGrid (rowStep n r a) = (workGrid a)[r := row (slideRow (workGrid a ! r))]"
  "totalScoreGain (rowStep n r a) =
     jsAdd (totalScoreGain a) (scoreGain (slideRow (workGrid a ! r)))"
  "allMerged (rowStep n r a) = allMerged a @ merged (slideRow (workGrid a ! r))"
  by (simp_all add: rowStep_def Let_def)

lemma rowStep_keeps:
  assumes "r < n" "square n (workGrid a)"
  shows "square n (workGrid (rowStep n r a))"
    and "tileSum (workGrid (rowStep n r a)) = tileSum (workGrid a)"
proof -
  have len: "length (workGrid a) = n" and rws: "\<forall>rw \<in> set (workGrid a). length rw = n"
    using assms by (simp_all add: square_def list_all_iff)
  have "length (workGrid a ! r) = n" using assms len rws by simp
  then have "length (row (slideRow (workGrid a ! r))) = n" by (simp add: slideRow_length)
  then show "square n (workGrid (rowStep n r a))"
    using len rws set_update_subset_insert [of "workGrid a" r "row (slideRow (workGrid a ! r))"]
    by (auto simp: rowStep_fields square_def list_all_iff)
  have "map sum_list ((workGrid a)[r := row (slideRow (workGrid a ! r))]) =
        (map sum_list (workGrid a))[r := sum_list (workGrid a ! r)]"
    by (simp add: map_update slideRow_sum)
  also have "\<dots> = map sum_list (workGrid a)"
    using assms len by (simp add: list_update_same_conv)
  finally show "tileSum (workGrid (rowStep n r a)) = tileSum (workGrid a)"
    by (simp add: rowStep_fields tileSum_def)
qed

lemma fold_rowStep_keeps:
  "square n (workGrid a) \<Longrightarrow> \<forall>r \<in> set rs. r < n \<Longrightarrow>
   square n (workGrid (fold (rowStep n) rs a)) \<and>
   tileSum (workGrid (fold (rowStep n) rs a)) = tileSum (workGrid a)"
proof (induction rs arbitrary: a)
  case Nil
  then show ?case by simp
next
  case (Cons r rs)
  have r: "r < n" using Cons.prems by simp
  have sq: "square n (workGrid (rowStep n r a))"
    using r Cons.prems(1) by (rule rowStep_keeps)
  have ts: "tileSum (workGrid (rowStep n r a)) = tileSum (workGrid a)"
    using r Cons.prems(1) by (rule rowStep_keeps)
  show ?case
    using Cons.IH [OF sq] Cons.prems(2) ts by simp
qed

lemma slideStep_keeps:
  assumes "wellFormed s"
  shows "square (sizeN s) (workGrid (slideStep s direction))"
    and "tileSum (workGrid (slideStep s direction)) = tileSum (grid s)"
proof -
  let ?w = "(rotateGrid ^^ loopCount (rotations direction)) (cloneGrid (grid s))"
  let ?a = "\<lparr>workGrid = ?w, moved = False, totalScoreGain = 0, allMerged = [],
             tileMovements = []\<rparr>"
  have sq0: "square (sizeN s) (grid s)" using assms by (simp add: wellFormed_def)
  have w: "square (sizeN s) ?w \<and> tileSum ?w = tileSum (grid s)"
    using rotations_keep_square_and_sum [OF sq0] by (simp add: cloneGrid_id)
  have "square (sizeN s) (workGrid (fold (rowStep (sizeN s)) [0..<sizeN s] ?a)) \<and>
        tileSum (workGrid (fold (rowStep (sizeN s)) [0..<sizeN s] ?a)) = tileSum (workGrid ?a)"
    using w by (intro fold_rowStep_keeps) simp_all
  then show "square (sizeN s) (workGrid (slideStep s direction))"
    and "tileSum (workGrid (slideStep s direction)) = tileSum (grid s)"
    using w by (simp_all add: slideStep_def Let_def)
qed

section \<open>The grid stays a square of the engine's size\<close>

lemma square_list_update:
  "square n g \<Longrightarrow> square n (g[r := (g ! r)[c := v]])"
  by (cases "r < length g") (auto simp: square_def list_all_length nth_list_update)

lemma addRandomTile_wellFormed: "wellFormed s \<Longrightarrow> wellFormed (snd (addRandomTile s rn))"
  by (simp add: wellFormed_def addRandomTile_def Let_def square_list_update)

lemma move_wellFormed:
  assumes "wellFormed s"
  shows "wellFormed (snd (move s direction rn))"
proof (cases "fst (move s direction rn)")
  case None
  then have "grid (snd (move s direction rn)) = grid s \<and>
             sizeN (snd (move s direction rn)) = sizeN s"
    by (auto simp: move_def Let_def pushHistory_frame split: if_splits)
  then show ?thesis using assms by (simp add: wellFormed_def)
next
  case (Some res)
  then have mv: "move s direction rn = (Some res, snd (move s direction rn))"
    by (simp add: prod_eq_iff)
  let ?s3 = "commit (pushHistory s) direction (slideStep s direction)"
  have "square (sizeN s) (workGrid (slideStep s direction))"
    using assms by (rule slideStep_keeps)
  then have "wellFormed ?s3"
    using rotations_keep_square_and_sum [of "sizeN s" "workGrid (slideStep s direction)"]
    by (simp add: wellFormed_def commit_frame pushHistory_frame)
  then have "wellFormed (snd (addRandomTile ?s3 rn))" by (rule addRandomTile_wellFormed)
  moreover have "sizeN (snd (move s direction rn)) = sizeN (snd (addRandomTile ?s3 rn))"
    by (simp add: move_def Let_def addRandomTile_frame commit_frame pushHistory_frame
        slideStep_pushHistory)
  ultimately show ?thesis
    using move_result(6) [OF mv] by (simp add: wellFormed_def)
qed

lemma init_wellFormed: "wellFormed (init s rn1 rn2)"
proof -
  let ?s0 = "s\<lparr>grid := replicate (sizeN s) (replicate (sizeN s) 0), score := 0,
               history := [], gameState := Playing, wonBefore := False, moveId := 0\<rparr>"
  have "wellFormed ?s0" by (simp add: wellFormed_def square_def list_all_iff)
  then show ?thesis
    by (simp add: init_def Let_def addRandomTile_wellFormed)
qed

section \<open>What the spawn does\<close>

lemma emptyCells_iff:
  "(r, c) \<in> set (emptyCells s) \<longleftrightarrow> r < sizeN s \<and> c < sizeN s \<and> grid s ! r ! c = 0"
  by (auto simp: emptyCells_def split: if_splits)

lemma pick_in_range:
  assumes "0 \<le> (p :: rat)" "p < 1" "0 < n"
  shows "nat \<lfloor>p * of_nat n\<rfloor> < n"
proof -
  have "p * of_nat n < of_nat n" using assms by simp
  then have "\<lfloor>p * of_nat n\<rfloor> < int n" by (simp add: floor_less_iff)
  moreover have "0 \<le> \<lfloor>p * of_nat n\<rfloor>" using assms by simp
  ultimately show ?thesis by linarith
qed

lemma sum_list_update_int:
  "k < length xs \<Longrightarrow> sum_list (xs[k := x]) = sum_list xs + x - (xs ! k :: int)"
  by (induction xs arbitrary: k) (auto split: nat.splits)

lemma tileSum_update:
  assumes "r < length g" "c < length (g ! r)"
  shows "tileSum (g[r := (g ! r)[c := v]]) = tileSum g + v - g ! r ! c"
proof -
  have "map sum_list (g[r := (g ! r)[c := v]]) =
        (map sum_list g)[r := sum_list ((g ! r)[c := v])]"
    by (simp add: map_update)
  then show ?thesis
    using assms by (simp add: tileSum_def sum_list_update_int)
qed

text \<open>
  With a draw in \<open>[0, 1)\<close> and an empty cell on the board, the spawn puts a 2 or a 4 into
  a cell that was empty and changes nothing else.
\<close>

lemma addRandomTile_spawns:
  assumes "wellFormed s" "0 \<le> pick rn" "pick rn < 1" "emptyCells s \<noteq> []"
  shows "\<exists>t. fst (addRandomTile s rn) = Some t \<and> t_r t < sizeN s \<and> t_c t < sizeN s \<and>
             grid s ! t_r t ! t_c t = 0 \<and> t_value t \<in> {2, 4} \<and>
             grid (snd (addRandomTile s rn)) =
               (grid s)[t_r t := (grid s ! t_r t)[t_c t := t_value t]] \<and>
             tileSum (grid (snd (addRandomTile s rn))) = tileSum (grid s) + t_value t"
proof -
  let ?e = "emptyCells s"
  let ?k = "nat \<lfloor>pick rn * of_nat (length ?e)\<rfloor>"
  have k: "?k < length ?e" using assms by (intro pick_in_range) simp_all
  then have "?e ! ?k \<in> set ?e" by simp
  then have cell: "fst (?e ! ?k) < sizeN s \<and> snd (?e ! ?k) < sizeN s \<and>
                   grid s ! fst (?e ! ?k) ! snd (?e ! ?k) = 0"
    using emptyCells_iff [of "fst (?e ! ?k)" "snd (?e ! ?k)" s] by simp
  have len: "length (grid s) = sizeN s" "length (grid s ! fst (?e ! ?k)) = sizeN s"
    using assms(1) cell by (simp_all add: wellFormed_def square_def list_all_length)
  show ?thesis
    using assms(4) cell len
    by (simp add: addRandomTile_def Let_def tileSum_update)
qed

lemma commit_wellFormed:
  assumes "wellFormed s"
  shows "wellFormed (commit (pushHistory s) direction (slideStep s direction))"
    and "tileSum (grid (commit (pushHistory s) direction (slideStep s direction))) =
         tileSum (grid s)"
proof -
  have sq: "square (sizeN s) (workGrid (slideStep s direction))"
    and ts: "tileSum (workGrid (slideStep s direction)) = tileSum (grid s)"
    using assms by (rule slideStep_keeps)+
  show "wellFormed (commit (pushHistory s) direction (slideStep s direction))"
    using rotations_keep_square_and_sum [OF sq]
    by (simp add: wellFormed_def commit_frame pushHistory_frame)
  show "tileSum (grid (commit (pushHistory s) direction (slideStep s direction))) =
        tileSum (grid s)"
    using rotations_keep_square_and_sum [OF sq] ts by (simp add: commit_frame)
qed

text \<open>
  The tiles of the grid a committed move leaves add up to those of the grid before the
  move plus the new tile.
\<close>

lemma move_tileSum:
  assumes "wellFormed s" "0 \<le> pick rn" "pick rn < 1"
    and "move s direction rn = (Some res, s')"
  shows "tileSum (grid s') =
           tileSum (grid s) + (case newTile res of None \<Rightarrow> 0 | Some t \<Rightarrow> t_value t)"
proof -
  let ?s3 = "commit (pushHistory s) direction (slideStep s direction)"
  have w3: "wellFormed ?s3" and g3: "tileSum (grid ?s3) = tileSum (grid s)"
    using assms(1) by (rule commit_wellFormed)+
  have nt: "newTile res = fst (addRandomTile ?s3 rn)"
    and g': "grid s' = grid (snd (addRandomTile ?s3 rn))"
    using move_result(5,6) [OF assms(4)] by simp_all
  show ?thesis
  proof (cases "emptyCells ?s3 = []")
    case True
    then show ?thesis using nt g' g3 by (simp add: addRandomTile_def)
  next
    case False
    from addRandomTile_spawns [OF w3 assms(2,3) False] obtain t where
      "fst (addRandomTile ?s3 rn) = Some t"
      "tileSum (grid (snd (addRandomTile ?s3 rn))) = tileSum (grid ?s3) + t_value t"
      by blast
    then show ?thesis using nt g' g3 by simp
  qed
qed

section \<open>Merge conservation\<close>










section \<open>Winning and losing\<close>

lemma canMove_iff: "canMove s = (\<not> (noEmptyCell s \<and> noEqualNeighbours s))"
  unfolding canMove_def noEmptyCell_def noEqualNeighbours_def list_ex_iff
  by (simp only: set_upt atLeastLessThan_iff) auto

lemma canMove_cong:
  "sizeN t = sizeN s \<Longrightarrow> grid t = grid s \<Longrightarrow> canMove t = canMove s"
  by (simp add: canMove_def)

text \<open>The state a committed move leaves: the lose check has the last word.\<close>

lemma move_gameState:
  assumes "move s direction rn = (Some res, s')"
  shows "gameState s' =
           (if \<not> canMove s' then Lost
            else if has2048 res s' \<and> \<not> wonBefore s then Won
            else gameState s)"
proof -
  define s4 where
    "s4 = snd (addRandomTile (commit (pushHistory s) direction (slideStep s direction)) rn)"
  define hasWon where
    "hasWon = (2048 \<in> set (allMerged (slideStep s direction)) \<or>
               list_ex (\<lambda>rw. 2048 \<in> set rw) (grid s4))"
  define s5 where "s5 = (if hasWon \<and> \<not> wonBefore s4 then s4\<lparr>gameState := Won\<rparr> else s4)"
  have s': "s' = (if \<not> canMove s5 then s5\<lparr>gameState := Lost\<rparr> else s5)"
    and res: "mergedTiles res = allMerged (slideStep s direction)"
    using assms
    by (auto simp: move_def Let_def slideStep_pushHistory s4_def hasWon_def s5_def
        split: if_splits)
  have g: "grid s' = grid s4" and n: "sizeN s' = sizeN s4"
    by (simp_all add: s' s5_def)
  have cm5: "canMove s5 = canMove s'"
    by (rule canMove_cong) (simp_all add: s')
  have hw: "hasWon = has2048 res s'"
    by (simp add: hasWon_def has2048_def res g list_ex_iff)
  have wb: "wonBefore s4 = wonBefore s" and gs4: "gameState s4 = gameState s"
    by (simp_all add: s4_def addRandomTile_frame commit_frame pushHistory_frame)
  have "gameState s' = (if \<not> canMove s5 then Lost
                        else if hasWon \<and> \<not> wonBefore s4 then Won else gameState s4)"
    by (simp add: s' s5_def)
  then show ?thesis
    by (simp only: cm5 hw wb gs4)
qed

text \<open>
  Claim C3, as the code has it. After a committed move on an engine whose flag
  \<open>wonBefore\<close> is false: if a merge made exactly 2048 or a cell of the grid after the
  spawn holds exactly 2048, the state is \<open>Won\<close> when a further move is possible and \<open>Lost\<close>
  when none is. If no merge and no cell is exactly 2048 and a further move is possible,
  the state is what it was, whatever values above 2048 the move made or the grid holds.
\<close>

theorem win_on_exact_2048:
  assumes "move s direction rn = (Some res, s')" and "\<not> wonBefore s"
  shows "(has2048 res s' \<longrightarrow> gameState s' = (if canMove s' then Won else Lost)) \<and>
         (\<not> has2048 res s' \<and> canMove s' \<longrightarrow> gameState s' = gameState s)"
  using move_gameState [OF assms(1)] assms(2) by simp

theorem win_on_exact_2048_witness:
  "move winState ''left'' firstCellTwo = (Some wonResult, wonEngine) \<and>
   wonBefore winState = False \<and> has2048 wonResult wonEngine \<and> canMove wonEngine \<and>
   gameState wonEngine = Won \<and>
   move twoBig ''left'' firstCellTwo = (Some bigResult, bigEngine) \<and>
   wonBefore twoBig = False \<and> has2048 bigResult bigEngine = False \<and> canMove bigEngine \<and>
   gameState bigEngine = gameState twoBig"
proof -
  have mv: "move winState ''left'' firstCellTwo = (Some wonResult, wonEngine)"
    by code_simp
  have nb: "\<not> wonBefore winState" by (simp add: winState_def Game_def)
  have hw: "has2048 wonResult wonEngine" by (simp add: has2048_def wonResult_def)
  have cm: "canMove wonEngine" by code_simp
  have mv2: "move twoBig ''left'' firstCellTwo = (Some bigResult, bigEngine)"
    by code_simp
  have nb2: "\<not> wonBefore twoBig" by (simp add: twoBig_def Game_def)
  have hw2: "\<not> has2048 bigResult bigEngine"
    by (simp add: has2048_def bigResult_def bigEngine_def)
  have cm2: "canMove bigEngine" by code_simp
  show ?thesis
    using win_on_exact_2048 [OF mv nb] win_on_exact_2048 [OF mv2 nb2] mv nb hw cm mv2 nb2 hw2 cm2
    by simp
qed

text \<open>
  The claim as stated fails twice. On \<open>twoBig\<close> the move to the left merges 2048 and 2048
  into 4096, a value above the threshold that then stands in the grid, the flag is false,
  and the state stays \<open>Playing\<close>. On \<open>winAndLose\<close> the move to the left merges 1024 and
  1024 into 2048, the flag is false, the spawn fills the last empty cell of a grid with no
  equal neighbours, and the state is \<open>Lost\<close>, not \<open>Won\<close>.
\<close>

theorem win_threshold_counterexample:
  "wonBefore twoBig = False \<and>
   mergedTiles (the (fst (move twoBig ''left'' firstCellTwo))) = [4096] \<and>
   grid (snd (move twoBig ''left'' firstCellTwo)) =
     [[4096, 2, 0, 0], [0, 0, 0, 0], [0, 0, 0, 0], [0, 0, 0, 0]] \<and>
   gameState (snd (move twoBig ''left'' firstCellTwo)) = Playing \<and>
   wonBefore winAndLose = False \<and>
   mergedTiles (the (fst (move winAndLose ''left'' firstCellTwo))) = [2048] \<and>
   grid (snd (move winAndLose ''left'' firstCellTwo)) =
     [[2048, 8, 4, 2], [4, 16, 8, 4], [2, 4, 16, 8], [4, 2, 8, 16]] \<and>
   gameState (snd (move winAndLose ''left'' firstCellTwo)) = Lost"
  by code_simp

text \<open>
  Claim C4. The lose check runs after the win check on every committed move. If the grid
  after the spawn has no empty cell and no two cells next to each other in a row or in a
  column are equal, the state the move leaves and the state it returns are \<open>Lost\<close>, whether
  or not that move reached 2048; and a committed move leaves \<open>Lost\<close> in no other case.
\<close>

theorem lose_checked_after_win:
  assumes "move s direction rn = (Some res, s')"
  shows "(noEmptyCell s' \<and> noEqualNeighbours s' \<longrightarrow>
            gameState s' = Lost \<and> res_gameState res = Lost) \<and>
         (gameState s' = Lost \<longrightarrow> noEmptyCell s' \<and> noEqualNeighbours s')"
proof -
  have "gameState s \<noteq> Lost"
    using move_result(1) [OF assms] by (simp add: rejected_def)
  then show ?thesis
    using move_gameState [OF assms] move_result(8) [OF assms]
    by (auto simp: canMove_iff split: if_splits)
qed

theorem lose_checked_after_win_witness:
  "move smallWinAndLose ''left'' firstCellTwo = (Some lostResult, lostEngine) \<and>
   mergedTiles lostResult = [2048] \<and>
   noEmptyCell lostEngine \<and> noEqualNeighbours lostEngine \<and>
   gameState lostEngine = Lost \<and> res_gameState lostResult = Lost"
proof -
  have mv: "move smallWinAndLose ''left'' firstCellTwo = (Some lostResult, lostEngine)"
    by code_simp
  have ne: "noEmptyCell lostEngine"
    by (simp add: noEmptyCell_def lostEngine_def numeral_2_eq_2 All_less_Suc)
  have nn: "noEqualNeighbours lostEngine"
    by (simp add: noEqualNeighbours_def lostEngine_def numeral_2_eq_2 All_less_Suc)
  show ?thesis
    using lose_checked_after_win [OF mv] mv ne nn by (simp add: lostResult_def)
qed

section \<open>The bound on the history\<close>

lemma pushHistory_bound:
  assumes "maxHistory s = 20" "length (history s) \<le> 20"
  shows "length (history (pushHistory s)) \<le> 20"
  using assms by (auto simp: pushHistory_def Let_def)

lemma pushHistory_at_capacity:
  "maxHistory s = 20 \<Longrightarrow> length (history s) = 20 \<Longrightarrow>
   history (pushHistory s) = tl (history s) @ [snap s]"
  by (cases "history s") (simp_all add: pushHistory_def Let_def)

lemma move_history_bound:
  assumes "maxHistory s = 20" "length (history s) \<le> 20"
  shows "length (history (snd (move s direction rn))) \<le> 20"
  using assms pushHistory_bound [OF assms]
  by (simp add: move_history le_diff_conv)

lemma perform_history_bound:
  assumes "maxHistory s = 20" "length (history s) \<le> 20"
  shows "maxHistory (perform s c) = 20 \<and> length (history (perform s c)) \<le> 20"
proof (cases c)
  case (Move direction rn)
  then show ?thesis using assms by (simp add: move_maxHistory move_history_bound)
next
  case Undo
  then show ?thesis using assms by (auto simp: undo_def Let_def)
next
  case ContinueGame
  then show ?thesis using assms by (simp add: continueGame_def)
qed

lemma performAll_history_bound:
  "maxHistory s = 20 \<Longrightarrow> length (history s) \<le> 20 \<Longrightarrow>
   maxHistory (performAll s cs) = 20 \<and> length (history (performAll s cs)) \<le> 20"
proof (induction cs arbitrary: s)
  case Nil
  then show ?case by simp
next
  case (Cons c cs)
  from perform_history_bound [OF Cons.prems, of c] Cons.IH [of "perform s c"]
  show ?case by simp
qed

lemma playMoves_Cons:
  assumes "playMoves s ((direction, rn) # ms) = Some (pre, t)"
  shows "\<exists>res s' pre'. move s direction rn = (Some res, s') \<and>
           playMoves s' ms = Some (pre', t) \<and> pre = snap s # pre'"
  using assms by (auto split: prod.splits option.splits)

text \<open>
  After a run of committed moves the history is the end of the old history followed by
  the snapshots taken before each move: its last 20 entries.
\<close>

lemma playMoves_history:
  "maxHistory s = 20 \<Longrightarrow> length (history s) \<le> 20 \<Longrightarrow> playMoves s ms = Some (pre, t) \<Longrightarrow>
   length pre = length ms \<and>
   history t = drop (length (history s) + length pre - 20) (history s @ pre)"
proof (induction ms arbitrary: s pre)
  case Nil
  then show ?case by simp
next
  case (Cons m ms)
  obtain direction rn where m: "m = (direction, rn)" by (cases m)
  from playMoves_Cons [OF Cons.prems(3) [unfolded m]] obtain res s' pre' where
    mv: "move s direction rn = (Some res, s')" and
    rest: "playMoves s' ms = Some (pre', t)" and pre: "pre = snap s # pre'"
    by blast
  have hs': "history s' = history (pushHistory s)"
    using move_history [of s direction rn] move_result(1,2) [OF mv] mv by simp
  have mx: "maxHistory s' = 20"
    using move_maxHistory [of s direction rn] mv Cons.prems(1) by simp
  have ln: "length (history s') \<le> 20"
    using pushHistory_bound [OF Cons.prems(1,2)] hs' by simp
  from Cons.IH [OF mx ln rest]
  have ih: "length pre' = length ms"
    "history t = drop (length (history s') + length pre' - 20) (history s' @ pre')"
    by simp_all
  have "history t = drop (length (history s) + length pre - 20) (history s @ pre)"
  proof (cases "length (history s) = 20")
    case True
    then obtain h hs where h: "history s = h # hs" by (cases "history s") auto
    have "history s' = hs @ [snap s]"
      using pushHistory_at_capacity [OF Cons.prems(1) True] hs' h by simp
    then show ?thesis using ih(2) True h pre by (simp add: Suc_diff_le)
  next
    case False
    then have "length (history s) < 20" using Cons.prems(2) by simp
    then have "history s' = history s @ [snap s]"
      using hs' Cons.prems(1) by (simp add: pushHistory_def Let_def)
    then show ?thesis using ih(2) pre by simp
  qed
  then show ?case using ih(1) pre m by simp
qed

lemma init_history:
  "history (init s rn1 rn2) = []" "maxHistory (init s rn1 rn2) = maxHistory s"
  by (simp_all add: init_def Let_def addRandomTile_frame)

text \<open>
  Claim C8, as the code has it. On an engine with capacity 20 whose history has at most
  20 entries, as the constructor builds it, the history has at most 20 entries after
  every sequence of \<open>move\<close>, \<open>undo\<close> and \<open>continueGame\<close> calls, after \<open>init\<close>, after
  restoring what \<open>serialize\<close> gave, and after \<open>deserialize\<close> of data whose history has at
  most 20 entries. A snapshot pushed at capacity drops the oldest entry first. After 25
  committed moves in a row the history is the snapshots taken before the last 20 of them,
  oldest first.
\<close>

theorem history_bounded:
  assumes "maxHistory s = 20" and "length (history s) \<le> 20"
  shows "length (history (performAll s cs)) \<le> 20 \<and>
         length (history (init s rn1 rn2)) \<le> 20 \<and>
         length (history (snd (deserialize s (Some (serialize s))))) \<le> 20 \<and>
         (length (orElse (d_history d) []) \<le> 20 \<longrightarrow>
            length (history (snd (deserialize s (Some d)))) \<le> 20) \<and>
         (length (history s) = 20 \<longrightarrow> history (pushHistory s) = tl (history s) @ [snap s]) \<and>
         (playMoves s ms = Some (pre, t) \<and> length ms = 25 \<longrightarrow>
            length pre = 25 \<and> history t = drop 5 pre \<and> length (history t) = 20)"
proof (intro conjI impI)
  show "length (history (performAll s cs)) \<le> 20"
    using performAll_history_bound [OF assms] by simp
  show "length (history (init s rn1 rn2)) \<le> 20"
    by (simp add: init_history)
  show "length (history (snd (deserialize s (Some (serialize s))))) \<le> 20"
    using assms(2) by (simp add: deserialize_def serialize_def orElse_def)
  show "length (history (snd (deserialize s (Some d)))) \<le> 20"
    if "length (orElse (d_history d) []) \<le> 20"
    using that assms(2) by (simp add: deserialize_def split: option.splits)
  show "history (pushHistory s) = tl (history s) @ [snap s]" if "length (history s) = 20"
    using assms(1) that by (rule pushHistory_at_capacity)
next
  assume a: "playMoves s ms = Some (pre, t) \<and> length ms = 25"
  then have p: "length pre = 25"
    and h: "history t = drop (length (history s) + length pre - 20) (history s @ pre)"
    using playMoves_history [OF assms, of ms pre t] by simp_all
  show "length pre = 25" by (rule p)
  show "history t = drop 5 pre" using h p assms(2) by simp
  then show "length (history t) = 20" using p by simp
qed

theorem history_bounded_witness:
  "maxHistory oneTile = 20 \<and> length (history oneTile) \<le> 20 \<and>
   playMoves oneTile twentyFive \<noteq> None \<and> length twentyFive = 25 \<and>
   length (fst (the (playMoves oneTile twentyFive))) = 25 \<and>
   history (snd (the (playMoves oneTile twentyFive))) =
     drop 5 (fst (the (playMoves oneTile twentyFive))) \<and>
   length (history (snd (the (playMoves oneTile twentyFive)))) = 20 \<and>
   length (history (performAll oneTile [Move ''left'' firstCellTwo, Undo, ContinueGame])) \<le> 20 \<and>
   length (orElse (d_history gridOnly) []) \<le> 20 \<and>
   length (history (snd (deserialize oneTile (Some gridOnly)))) \<le> 20 \<and>
   maxHistory atCapacity = 20 \<and> length (history atCapacity) = 20 \<and>
   history (pushHistory atCapacity) = tl (history atCapacity) @ [snap atCapacity] \<and>
   length (history (performAll atCapacity [Move ''right'' firstCellTwo, ContinueGame])) \<le> 20"
proof -
  have mx: "maxHistory oneTile = 20" by (simp add: oneTile_def Game_def)
  have ln: "length (history oneTile) \<le> 20" by (simp add: oneTile_def Game_def)
  have ne: "playMoves oneTile twentyFive \<noteq> None" by code_simp
  have l25: "length twentyFive = 25" by code_simp
  have pm: "playMoves oneTile twentyFive =
              Some (fst (the (playMoves oneTile twentyFive)),
                    snd (the (playMoves oneTile twentyFive)))"
    using ne by auto
  have dh: "length (orElse (d_history gridOnly) []) \<le> 20"
    by (simp add: gridOnly_def orElse_def)
  have mx2: "maxHistory atCapacity = 20" by (simp add: atCapacity_def)
  have ln2: "length (history atCapacity) = 20" by (simp add: atCapacity_def)
  have ln2': "length (history atCapacity) \<le> 20" using ln2 by simp
  show ?thesis
    using history_bounded [OF mx ln, of "[Move ''left'' firstCellTwo, Undo, ContinueGame]" _ _
        gridOnly twentyFive "fst (the (playMoves oneTile twentyFive))"
        "snd (the (playMoves oneTile twentyFive))"]
      history_bounded [OF mx2 ln2', of "[Move ''right'' firstCellTwo, ContinueGame]"]
      mx ln ne l25 pm dh mx2 ln2
    by simp
qed

text \<open>
  The claim as stated fails: \<open>deserialize\<close> installs the history it is given. Restoring
  data with 21 snapshots leaves a history of 21 entries, and it still has 21 after the
  next committed move.
\<close>

theorem history_unbounded_after_deserialize:
  "fst (deserialize (Game 4) (Some overlong)) = True \<and>
   length (history (snd (deserialize (Game 4) (Some overlong)))) = 21 \<and>
   fst (move (snd (deserialize (Game 4) (Some overlong))) ''left'' firstCellTwo) \<noteq> None \<and>
   length (history (snd (move (snd (deserialize (Game 4) (Some overlong))) ''left''
                          firstCellTwo))) = 21"
  by code_simp

end
